theory Spec2Isabelle
  imports Main "HOL-Library.Word"
begin

section \<open>JavaScript strings and insertion-ordered sets\<close>

text \<open>
  \<open>String.prototype.trim\<close> and \<open>String.prototype.split\<close> inspect the code units of a
  string, so the strings of the email helper are sequences of UTF-16 code units.
  Identifiers, titles and messages that are only compared or concatenated stay
  \<^typ>\<open>string\<close>. \<open>js\<close> gives the code units of an ASCII literal.
\<close>

type_synonym jschar = "16 word"
type_synonym jsstring = "jschar list"

definition js :: "string \<Rightarrow> jsstring" where
  "js s = map (\<lambda>c. of_char c) s"

text \<open>
  The code units \<open>trim\<close> strips: ECMAScript's WhiteSpace (TAB, VT, FF, SP, NBSP, ZWNBSP
  and the category Zs) and LineTerminator (LF, CR, LS, PS).
\<close>

definition isWhiteSpace :: "jschar \<Rightarrow> bool" where
  "isWhiteSpace c \<longleftrightarrow> c \<in> set [0x09, 0x0A, 0x0B, 0x0C, 0x0D, 0x20, 0xA0, 0x1680,
     0x2000, 0x2001, 0x2002, 0x2003, 0x2004, 0x2005, 0x2006, 0x2007, 0x2008, 0x2009, 0x200A,
     0x2028, 0x2029, 0x202F, 0x205F, 0x3000, 0xFEFF]"

definition trim :: "jsstring \<Rightarrow> jsstring" where
  "trim s = rev (dropWhile isWhiteSpace (rev (dropWhile isWhiteSpace s)))"

text \<open>
  \<open>s.split(sep)\<close> for a one-character separator: the pieces between the separators,
  empty pieces included; the empty string splits into one empty piece.
\<close>

fun split :: "'a \<Rightarrow> 'a list \<Rightarrow> 'a list list" where
  "split sep [] = [[]]"
| "split sep (c # cs) =
     (if c = sep then [] # split sep cs
      else (case split sep cs of
              [] \<Rightarrow> [[c]]
            | w # ws \<Rightarrow> (c # w) # ws))"

definition comma :: jschar where
  "comma = 0x2C"

text \<open>
  A JavaScript \<open>Set\<close> iterates in insertion order and holds each value once: a list
  without repetition, \<open>add\<close> appending a value that is not yet there. Strings are
  compared code unit by code unit (SameValueZero).
\<close>

definition set_add :: "'a \<Rightarrow> 'a list \<Rightarrow> 'a list" where
  "set_add x s = (if x \<in> set s then s else s @ [x])"

definition new_Set :: "'a list \<Rightarrow> 'a list" where
  "new_Set xs = foldl (\<lambda>s x. set_add x s) [] xs"

section \<open>The email-option helper\<close>

record email_option =
  label :: jsstring

definition getFormattedEmailOptions :: "jsstring \<Rightarrow> email_option list \<Rightarrow> email_option list" where
  "getFormattedEmailOptions searchValue previousOptions =
     (if trim searchValue = [] then previousOptions
      else
        let previousEmails = map label previousOptions;
            allUniqueEmails = new_Set previousEmails;
            allUniqueEmails' =
              foldl (\<lambda>s email.
                       let trimmedEmail = trim email
                       in if trimmedEmail \<noteq> [] then set_add trimmedEmail s else s)
                    allUniqueEmails (split comma searchValue);
            formattedOptions = map (\<lambda>email. \<lparr>label = email\<rparr>) allUniqueEmails'
        in formattedOptions)"

text \<open>
  The reading of "first-occurrence order, duplicates collapsed" that the helper is
  compared with: every value stays at its first position and later repetitions go.
\<close>

fun keepFirst :: "'a list \<Rightarrow> 'a list" where
  "keepFirst [] = []"
| "keepFirst (x # xs) = x # keepFirst (filter (\<lambda>y. y \<noteq> x) xs)"

section \<open>Values shared by the listing adapters\<close>

text \<open>
  A rejected promise or a thrown value is a value: an awaited call returns
  \<open>Inl\<close> of what was thrown or \<open>Inr\<close> of its result. What is thrown is an
  \<open>Error\<close> with its message (\<open>JsError\<close>), some other value that has no
  \<open>message\<close> property (\<open>JsValue\<close>), or \<open>undefined\<close> or \<open>null\<close>
  (\<open>JsNullish\<close>). Field names carry a short prefix of their record where the plain
  name is taken.
\<close>

datatype js_error = JsError string | JsValue | JsNullish

text \<open>
  Reading \<open>e.message\<close> of a caught value: the message of an \<open>Error\<close>,
  \<open>undefined\<close> for a value without one, and a \<open>TypeError\<close> for \<open>undefined\<close>
  and \<open>null\<close> (the text of that error is the engine's).
\<close>

definition TypeError :: js_error where
  "TypeError = JsError ''Cannot read properties of undefined''"

fun message :: "js_error \<Rightarrow> js_error + string option" where
  "message (JsError m) = Inr (Some m)"
| "message JsValue = Inr None"
| "message JsNullish = Inl TypeError"

type_synonym 'a promise = "js_error + 'a"

record reference =
  ref_type :: string
  ref_id :: string
  ref_name :: string

record find_options =
  references :: "reference list option"
  referencesToExclude :: "reference list option"

record 'a search_result =
  total :: int
  hits :: "'a list"

record action_state =
  enabled :: bool
  reason :: "string option"

record row_actions =
  edit :: action_state

datatype validator_type = Warning | Error

text \<open>JavaScript truthiness of an optional string and of an optional boolean.\<close>

definition truthy :: "string option \<Rightarrow> bool" where
  "truthy s = (case s of None \<Rightarrow> False | Some v \<Rightarrow> v \<noteq> [])"

definition truthy_bool :: "bool option \<Rightarrow> bool" where
  "truthy_bool b = (case b of None \<Rightarrow> False | Some v \<Rightarrow> v)"

definition SAVED_OBJECTS_LIMIT_SETTING :: string where
  "SAVED_OBJECTS_LIMIT_SETTING = ''savedObjects:listingLimit''"

datatype metric_name = SAVED_OBJECT_LOADED_TIME | SAVED_OBJECT_DELETE_TIME

section \<open>The dashboard listing\<close>

subsection \<open>Backend records and list items\<close>

record search_tags =
  included :: "string list"
  excluded :: "string list"

record search_request =
  search :: string
  per_page :: int
  tags :: search_tags

record dashboard_data =
  data_title :: string
  data_description :: "string option"
  data_tags :: "string list option"
  data_time_range :: "(string \<times> string) option"

record dashboard_meta =
  updated_at :: "string option"
  created_at :: "string option"
  created_by :: "string option"
  updated_by :: "string option"
  meta_managed :: "bool option"

record dashboard_hit =
  hit_id :: string
  hit_data :: dashboard_data
  hit_meta :: dashboard_meta

record search_response =
  resp_total :: int
  resp_dashboards :: "dashboard_hit list"

record dashboard_attributes =
  attr_title :: string
  attr_description :: "string option"
  timeRestore :: bool

record dashboard_item =
  item_type :: string
  item_id :: string
  updatedAt :: "string option"
  createdAt :: "string option"
  createdBy :: "string option"
  updatedBy :: "string option"
  item_references :: "reference list"
  managed :: "bool option"
  attributes :: dashboard_attributes

datatype find_by_id_result =
  FindError js_error
| FindSuccess (found_title: string) (found_references: "reference list")

record duplicate_title_args =
  dup_title :: string
  copyOnSave :: bool
  lastSavedTitle :: string
  isTitleDuplicateConfirmed :: bool

subsection \<open>External services and observable effects\<close>

text \<open>
  The services the dashboard listing calls are not part of this layer: each is a field
  that gives the outcome of a call. \<open>performance_now\<close> gives the n-th reading of
  \<open>window.performance.now()\<close>.
\<close>

record dashboard_services =
  uiSettings_get :: "string \<Rightarrow> int"
  findService_search :: "search_request \<Rightarrow> search_response promise"
  findService_findById :: "string \<Rightarrow> find_by_id_result promise"
  checkForDuplicateDashboardTitle :: "duplicate_title_args \<Rightarrow> bool promise"
  dashboardClient_delete :: "string \<Rightarrow> unit promise"
  tagIdToReference :: "(string \<Rightarrow> reference) option"
  showWriteControls :: bool
  performance_now :: "nat \<Rightarrow> int"
  getDuplicateTitleWarning :: "string \<Rightarrow> string"
  getErrorDeletingDashboardToast :: string
  getManagementItemDisabledEditMessage :: string

datatype dashboard_effect =
  Search search_request
| Delete string
| ClearState string
| ReportPerformanceMetricEvent metric_name int "int option"
| ToastsAddError js_error string

text \<open>
  What the listing can change: the ids the backup service holds unsaved changes for, the
  component's \<open>unsavedDashboardIds\<close> state, the number of clock readings taken, and
  the calls made to the outside, in order. The backup service is outside the sources:
  \<open>clearState\<close> is taken to drop the id from the ids with unsaved changes, which
  \<open>getDashboardIdsWithUnsavedChanges\<close> lists.
\<close>

record dashboard_world =
  backup :: "string list"
  unsavedDashboardIds :: "string list"
  clock_reads :: nat
  effects :: "dashboard_effect list"

definition emit :: "dashboard_effect \<Rightarrow> dashboard_world \<Rightarrow> dashboard_world" where
  "emit e w = w\<lparr>effects := effects w @ [e]\<rparr>"

definition now :: "dashboard_services \<Rightarrow> dashboard_world \<Rightarrow> int \<times> dashboard_world" where
  "now env w = (performance_now env (clock_reads w), w\<lparr>clock_reads := Suc (clock_reads w)\<rparr>)"



subsection \<open>findDashboardListingItems\<close>

definition getReferenceIds :: "reference list option \<Rightarrow> string list option" where
  "getReferenceIds refs = map_option (map ref_id) refs"

definition toDashboardItem :: "(string \<Rightarrow> reference) option \<Rightarrow> dashboard_hit \<Rightarrow> dashboard_item" where
  "toDashboardItem tagApi h =
     (let data = hit_data h; meta = hit_meta h
      in \<lparr>item_type = ''dashboard'',
          item_id = hit_id h,
          updatedAt = updated_at meta,
          createdAt = created_at meta,
          createdBy = created_by meta,
          updatedBy = updated_by meta,
          item_references =
            (case (tagApi, data_tags data) of
               (Some toRef, Some ts) \<Rightarrow> map toRef ts
             | _ \<Rightarrow> []),
          managed = meta_managed meta,
          attributes = \<lparr>attr_title = data_title data,
                         attr_description = data_description data,
                         timeRestore = (data_time_range data \<noteq> None)\<rparr>\<rparr>)"

definition findDashboardListingItems ::
  "dashboard_services \<Rightarrow> string \<Rightarrow> find_options option \<Rightarrow> dashboard_world
     \<Rightarrow> dashboard_item search_result promise \<times> dashboard_world" where
  "findDashboardListingItems env searchTerm options w =
     (let (refs, refsToExclude) =
            (case options of
               None \<Rightarrow> (None, None)
             | Some opts \<Rightarrow> (references opts, referencesToExclude opts));
          limit = uiSettings_get env SAVED_OBJECTS_LIMIT_SETTING;
          (startTime, w1) = now env w;
          request = \<lparr>search = searchTerm,
                     per_page = limit,
                     tags = \<lparr>included = (case getReferenceIds refs of None \<Rightarrow> [] | Some ids \<Rightarrow> ids),
                             excluded = (case getReferenceIds refsToExclude of None \<Rightarrow> [] | Some ids \<Rightarrow> ids)\<rparr>\<rparr>;
          w2 = emit (Search request) w1
      in case findService_search env request of
           Inl e \<Rightarrow> (Inl e, w2)
         | Inr response \<Rightarrow>
             (let (endTime, w3) = now env w2;
                  w4 = emit (ReportPerformanceMetricEvent SAVED_OBJECT_LOADED_TIME
                               (endTime - startTime) None) w3
              in (Inr \<lparr>total = resp_total response,
                       hits = map (toDashboardItem (tagIdToReference env)) (resp_dashboards response)\<rparr>,
                  w4)))"

subsection \<open>The title validator of the content editor\<close>

record title_validator =
  vtype :: validator_type
  vfn :: "string \<Rightarrow> string \<Rightarrow> string option promise"

text \<open>The body of the validator's \<open>try\<close> block; \<open>Inl\<close> is what reaches \<open>catch\<close>.\<close>

definition dashboard_validator_try :: "dashboard_services \<Rightarrow> string \<Rightarrow> string \<Rightarrow> string option promise" where
  "dashboard_validator_try env value i =
     (case findService_findById env i of
        Inl e \<Rightarrow> Inl e
      | Inr dashboard \<Rightarrow>
          (case dashboard of
             FindError _ \<Rightarrow> Inr None
           | FindSuccess savedTitle _ \<Rightarrow>
               (case checkForDuplicateDashboardTitle env
                       \<lparr>dup_title = value, copyOnSave = False,
                        lastSavedTitle = savedTitle, isTitleDuplicateConfirmed = False\<rparr> of
                  Inl e \<Rightarrow> Inl e
                | Inr validTitle \<Rightarrow>
                    if \<not> validTitle then Inl (JsError (getDuplicateTitleWarning env value))
                    else Inr None)))"

definition dashboard_validator_fn :: "dashboard_services \<Rightarrow> string \<Rightarrow> string \<Rightarrow> string option promise" where
  "dashboard_validator_fn env value i =
     (if i \<noteq> [] then
        (case dashboard_validator_try env value i of
           Inl e \<Rightarrow> message e
         | Inr r \<Rightarrow> Inr r)
      else Inr None)"

definition dashboard_contentEditorValidators :: "dashboard_services \<Rightarrow> title_validator list" where
  "dashboard_contentEditorValidators env = [\<lparr>vtype = Warning, vfn = dashboard_validator_fn env\<rparr>]"

subsection \<open>deleteItems and rowItemActions\<close>




definition dashboard_rowItemActions :: "dashboard_services \<Rightarrow> dashboard_item \<Rightarrow> row_actions option" where
  "dashboard_rowItemActions env item =
     (if \<not> showWriteControls env \<or> truthy_bool (managed item) then
        Some \<lparr>edit = \<lparr>enabled = False,
                      reason = (if truthy_bool (managed item)
                                then Some (getManagementItemDisabledEditMessage env)
                                else None)\<rparr>\<rparr>
      else None)"

section \<open>The visualization listing\<close>

subsection \<open>List items, services and effects\<close>

datatype editor =
  OnEdit "string \<Rightarrow> unit promise"
| EditUrl (editUrl: string) (editApp: "string option")

record vis_list_item =
  vis_id :: string
  vis_title :: string
  vis_description :: "string option"
  vis_type :: "string option"
  savedObjectType :: string
  vis_readOnly :: "bool option"
  vis_error :: "string option"
  vis_editor :: "editor option"
  vis_managed :: "bool option"

record vis_attributes =
  va_id :: string
  va_title :: string
  va_description :: "string option"
  va_readOnly :: bool
  va_error :: "string option"

record visualize_user_content =
  uc_id :: string
  uc_title :: string
  uc_description :: "string option"
  uc_type :: string
  uc_savedObjectType :: string
  uc_readOnly :: "bool option"
  uc_error :: "string option"
  uc_editor :: "editor option"
  uc_managed :: "bool option"
  uc_attributes :: vis_attributes

record vis_find_response =
  vf_total :: int
  vf_hits :: "vis_list_item list"

record basic_attributes =
  ba_title :: string
  ba_description :: string
  ba_tags :: "string list"

record save_args =
  args_id :: string
  args_title :: string
  args_description :: "string option"
  args_tags :: "string list"

record duplicate_check_args =
  dc_id :: string
  dc_title :: string
  dc_lastSavedTitle :: string

text \<open>
  The services of the visualization tab, each field giving the outcome of a call.
  \<open>checkForDuplicateTitle\<close> is called with the saved object, the two flags
  \<open>copyOnSave\<close> and \<open>isTitleDuplicateConfirmed\<close> and a callback that does nothing,
  which is left out.
\<close>

record vis_services =
  core_uiSettings_get :: "string \<Rightarrow> int"
  findListItems ::
    "string \<Rightarrow> int \<Rightarrow> reference list option \<Rightarrow> reference list option \<Rightarrow> vis_find_response promise"
  visualizeCapabilities :: "(string \<Rightarrow> bool option) option"
  updateBasicSoAttributes :: "string \<Rightarrow> string \<Rightarrow> basic_attributes \<Rightarrow> unit promise"
  checkForDuplicateTitle :: "duplicate_check_args \<Rightarrow> bool \<Rightarrow> bool \<Rightarrow> bool promise"
  deleteListItems :: "visualize_user_content list \<Rightarrow> unit promise"

datatype vis_effect =
  FindListItems string int "reference list option" "reference list option"
| UpdateBasicSoAttributes string string basic_attributes
| DeleteListItems "visualize_user_content list"
| AddError js_error string
| CallOnEdit string
| NavigateToApp string string
| NavigateToVisualization string
| ShowNewVisModal

text \<open>
  The component's state: the \<open>visualizedUserContent\<close> ref (undefined until the first
  search returns) and the calls made to the outside, in order.
\<close>

record vis_component =
  visualizedUserContent :: "visualize_user_content list option"
  calls :: "vis_effect list"

definition call :: "vis_effect \<Rightarrow> vis_component \<Rightarrow> vis_component" where
  "call e c = c\<lparr>calls := calls c @ [e]\<rparr>"

text \<open>The default messages of the translated strings.\<close>

definition managedVisualizationMessage :: string where
  "managedVisualizationMessage = ''Elastic manages this visualization. Changing it is not possible.''"

definition readOnlyVisualizationMessage :: string where
  "readOnlyVisualizationMessage =
     ''These details can'' @ [CHR 0x27] @ ''t be edited because this visualization is no longer supported.''"

definition duplicateTitleWarning :: "string \<Rightarrow> string" where
  "duplicateTitleWarning value =
     ''Saving '' @ [CHR 0x22] @ value @ [CHR 0x22] @ '' creates a duplicate title.''"

definition deleteErrorTitle :: string where
  "deleteErrorTitle = ''Error deleting visualization''"

subsection \<open>findVisualizationsForDashboard and findItems\<close>

definition toUserContent :: "vis_list_item \<Rightarrow> visualize_user_content" where
  "toUserContent vis =
     \<lparr>uc_id = vis_id vis,
      uc_title = vis_title vis,
      uc_description = vis_description vis,
      uc_type = (case vis_type vis of
                   None \<Rightarrow> savedObjectType vis
                 | Some t \<Rightarrow> if t \<noteq> [] then t else savedObjectType vis),
      uc_savedObjectType = savedObjectType vis,
      uc_readOnly = vis_readOnly vis,
      uc_error = vis_error vis,
      uc_editor = vis_editor vis,
      uc_managed = vis_managed vis,
      uc_attributes = \<lparr>va_id = vis_id vis,
                        va_title = vis_title vis,
                        va_description = vis_description vis,
                        va_readOnly = (case vis_readOnly vis of None \<Rightarrow> False | Some b \<Rightarrow> b),
                        va_error = vis_error vis\<rparr>\<rparr>"

definition findVisualizationsForDashboard ::
  "vis_services \<Rightarrow> string \<Rightarrow> find_options option \<Rightarrow> vis_component
     \<Rightarrow> visualize_user_content search_result promise \<times> vis_component" where
  "findVisualizationsForDashboard services searchTerm options c =
     (let limit = core_uiSettings_get services SAVED_OBJECTS_LIMIT_SETTING;
          refs = (case options of None \<Rightarrow> None | Some opts \<Rightarrow> references opts);
          refsToExclude = (case options of None \<Rightarrow> None | Some opts \<Rightarrow> referencesToExclude opts);
          c1 = call (FindListItems searchTerm limit refs refsToExclude) c
      in case findListItems services searchTerm limit refs refsToExclude of
           Inl e \<Rightarrow> (Inl e, c1)
         | Inr response \<Rightarrow>
             (Inr \<lparr>total = vf_total response, hits = map toUserContent (vf_hits response)\<rparr>, c1))"

definition findItems ::
  "vis_services \<Rightarrow> string \<Rightarrow> find_options option \<Rightarrow> vis_component
     \<Rightarrow> visualize_user_content search_result promise \<times> vis_component" where
  "findItems services searchTerm options c =
     (case findVisualizationsForDashboard services searchTerm options c of
        (Inl e, c1) \<Rightarrow> (Inl e, c1)
      | (Inr result, c1) \<Rightarrow> (Inr result, c1\<lparr>visualizedUserContent := Some (hits result)\<rparr>))"

subsection \<open>The handlers given to the table\<close>

definition createItem :: "vis_component \<Rightarrow> vis_component" where
  "createItem c = call ShowNewVisModal c"

text \<open>\<open>visualizedUserContent.current?.find(...)\<close>: the first cached item that matches.\<close>

definition findContent :: "vis_component \<Rightarrow> string \<Rightarrow> visualize_user_content option" where
  "findContent c i =
     (case visualizedUserContent c of
        None \<Rightarrow> None
      | Some content \<Rightarrow> find (\<lambda>item. uc_id item = i) content)"

definition onContentEditorSave ::
  "vis_services \<Rightarrow> save_args \<Rightarrow> vis_component \<Rightarrow> unit promise \<times> vis_component" where
  "onContentEditorSave services args c =
     (case findContent c (args_id args) of
        Some content \<Rightarrow>
          (let attrs = \<lparr>ba_title = args_title args,
                        ba_description = (case args_description args of None \<Rightarrow> [] | Some d \<Rightarrow> d),
                        ba_tags = args_tags args\<rparr>
           in (updateBasicSoAttributes services (va_id (uc_attributes content)) (uc_type content) attrs,
               call (UpdateBasicSoAttributes (va_id (uc_attributes content)) (uc_type content) attrs) c))
      | None \<Rightarrow> (Inr (), c))"

definition validator_fn :: "vis_services \<Rightarrow> vis_component \<Rightarrow> string \<Rightarrow> string \<Rightarrow> string option promise" where
  "validator_fn services c value i =
     (if i \<noteq> [] then
        (case findContent c i of
           Some content \<Rightarrow>
             (case checkForDuplicateTitle services
                     \<lparr>dc_id = i, dc_title = value, dc_lastSavedTitle = uc_title content\<rparr>
                     False False of
                Inl e \<Rightarrow> Inr (Some (duplicateTitleWarning value))
              | Inr _ \<Rightarrow> Inr None)
         | None \<Rightarrow> Inr None)
      else Inr None)"

definition contentEditorValidators :: "vis_services \<Rightarrow> vis_component \<Rightarrow> title_validator list" where
  "contentEditorValidators services c = [\<lparr>vtype = Warning, vfn = validator_fn services c\<rparr>]"

definition editItem ::
  "vis_services \<Rightarrow> visualize_user_content \<Rightarrow> vis_component \<Rightarrow> unit promise \<times> vis_component" where
  "editItem services item c =
     (let i = va_id (uc_attributes item)
      in case uc_editor item of
           Some (OnEdit onEdit) \<Rightarrow> (onEdit i, call (CallOnEdit i) c)
         | Some (EditUrl url app) \<Rightarrow>
             (if truthy app
              then (Inr (), call (NavigateToApp (case app of Some a \<Rightarrow> a | None \<Rightarrow> []) url) c)
              else (Inr (), call (NavigateToVisualization i) c))
         | None \<Rightarrow> (Inr (), call (NavigateToVisualization i) c))"

definition capability :: "vis_services \<Rightarrow> string \<Rightarrow> bool option" where
  "capability services name =
     (case visualizeCapabilities services of None \<Rightarrow> None | Some caps \<Rightarrow> caps name)"

definition canSave :: "vis_services \<Rightarrow> bool" where
  "canSave services = (case capability services ''save'' of None \<Rightarrow> False | Some b \<Rightarrow> b)"

definition canDelete :: "vis_services \<Rightarrow> bool" where
  "canDelete services =
     (case capability services ''delete'' of
        Some b \<Rightarrow> b
      | None \<Rightarrow> (case capability services ''save'' of None \<Rightarrow> False | Some b \<Rightarrow> b))"

definition deleteItemsHandler ::
  "vis_services \<Rightarrow> visualize_user_content list \<Rightarrow> vis_component \<Rightarrow> unit promise \<times> vis_component" where
  "deleteItemsHandler services items c =
     (let c1 = call (DeleteListItems items) c
      in case deleteListItems services items of
           Inl error \<Rightarrow> (Inr (), call (AddError error deleteErrorTitle) c1)
         | Inr _ \<Rightarrow> (Inr (), c1))"

definition vis_deleteItems ::
  "vis_services \<Rightarrow> (visualize_user_content list \<Rightarrow> vis_component \<Rightarrow> unit promise \<times> vis_component) option" where
  "vis_deleteItems services = (if canDelete services then Some (deleteItemsHandler services) else None)"

definition getOnClickTitle ::
  "vis_services \<Rightarrow> visualize_user_content \<Rightarrow> (vis_component \<Rightarrow> unit promise \<times> vis_component) option" where
  "getOnClickTitle services item =
     (if va_readOnly (uc_attributes item) \<or> truthy (uc_error item) then None
      else Some (\<lambda>c. editItem services item c))"

definition rowItemActions :: "vis_services \<Rightarrow> visualize_user_content \<Rightarrow> row_actions option" where
  "rowItemActions services item =
     (let isManaged = truthy_bool (uc_managed item);
          isReadOnlyVisualization = va_readOnly (uc_attributes item)
      in if \<not> canSave services \<or> isManaged \<or> isReadOnlyVisualization then
           Some \<lparr>edit = \<lparr>enabled = False,
                         reason = (if isManaged then Some managedVisualizationMessage
                                   else if isReadOnlyVisualization then Some readOnlyVisualizationMessage
                                   else None)\<rparr>\<rparr>
         else None)"

section \<open>The plugin that registers the visualizations tab\<close>

text \<open>
  The tab descriptor's \<open>getTableList\<close> is a deferred factory: \<open>setup\<close> only stores
  it, and it runs when the tab is rendered.
\<close>

datatype table_list_factory = GetVisualizationsTableList

record tab_descriptor =
  tab_title :: string
  tab_id :: string
  getTableList :: table_list_factory

text \<open>
  The host as the plugin sees it: the optional dashboard dependency with its
  \<open>listingViewRegistry\<close> (a \<open>Set\<close> of descriptor objects, in insertion order) and what
  has been logged. The descriptor is a fresh object at every call of the plugin's
  \<open>setup\<close> method (\<open>plugin_setup\<close> here), so \<open>add\<close> always inserts it.
\<close>

record host =
  dashboard :: "tab_descriptor list option"
  logged :: "string list"

definition visualizationsTabConfig :: tab_descriptor where
  "visualizationsTabConfig =
     \<lparr>tab_title = ''Visualizations'', tab_id = ''visualizations'',
      getTableList = GetVisualizationsTableList\<rparr>"

definition plugin_setup :: "host \<Rightarrow> js_error + host" where
  "plugin_setup h =
     (case dashboard h of
        Some listingViewRegistry \<Rightarrow>
          Inr (h\<lparr>dashboard := Some (listingViewRegistry @ [visualizationsTabConfig])\<rparr>)
      | None \<Rightarrow> Inr h)"

definition plugin_start :: "host \<Rightarrow> js_error + host" where
  "plugin_start h = Inr h"

datatype lifecycle = Setup | Start

fun lifecycle_step :: "lifecycle \<Rightarrow> host \<Rightarrow> js_error + host" where
  "lifecycle_step Setup h = plugin_setup h"
| "lifecycle_step Start h = plugin_start h"

fun run :: "lifecycle list \<Rightarrow> host \<Rightarrow> js_error + host" where
  "run [] h = Inr h"
| "run (ev # evs) h = (case lifecycle_step ev h of Inl e \<Rightarrow> Inl e | Inr h' \<Rightarrow> run evs h')"

definition registrations :: "host \<Rightarrow> nat" where
  "registrations h =
     (case dashboard h of None \<Rightarrow> 0 | Some reg \<Rightarrow> count_list reg visualizationsTabConfig)"

section \<open>Reading the effect logs\<close>

text \<open>The requests sent to the backend search service, oldest first.\<close>

fun searches :: "dashboard_effect list \<Rightarrow> search_request list" where
  "searches [] = []"
| "searches (Search r # es) = r # searches es"
| "searches (_ # es) = searches es"

fun findListItemsCalls ::
  "vis_effect list \<Rightarrow> (string \<times> int \<times> reference list option \<times> reference list option) list" where
  "findListItemsCalls [] = []"
| "findListItemsCalls (FindListItems t l r x # es) = (t, l, r, x) # findListItemsCalls es"
| "findListItemsCalls (_ # es) = findListItemsCalls es"


section \<open>Concrete inputs\<close>

text \<open>
  A backend that reports 100 matches and returns one page of a single dashboard; the
  deletion of \<open>d2\<close> is rejected; the title \<open>Report B\<close> is taken by another dashboard.
\<close>

definition demo_hit :: dashboard_hit where
  "demo_hit =
     \<lparr>hit_id = ''d1'',
      hit_data = \<lparr>data_title = ''Report A'', data_description = None,
                  data_tags = Some [''t1''], data_time_range = None\<rparr>,
      hit_meta = \<lparr>updated_at = Some ''2024-01-01'', created_at = None, created_by = None,
                  updated_by = None, meta_managed = Some True\<rparr>\<rparr>"

definition demo_env :: dashboard_services where
  "demo_env =
     \<lparr>uiSettings_get = (\<lambda>k. if k = ''savedObjects:listingLimit'' then 1000 else 20),
      findService_search = (\<lambda>r. Inr \<lparr>resp_total = 100, resp_dashboards = [demo_hit]\<rparr>),
      findService_findById =
        (\<lambda>i. if i = ''d1'' then Inr (FindSuccess ''Report A'' []) else Inl (JsError ''not found'')),
      checkForDuplicateDashboardTitle = (\<lambda>a. Inr (dup_title a \<noteq> ''Report B'')),
      dashboardClient_delete = (\<lambda>i. if i = ''d2'' then Inl (JsError ''forbidden'') else Inr ()),
      tagIdToReference = None,
      showWriteControls = True,
      performance_now = (\<lambda>n. 5 * int n),
      getDuplicateTitleWarning = duplicateTitleWarning,
      getErrorDeletingDashboardToast = ''Error deleting dashboard'',
      getManagementItemDisabledEditMessage = ''Elastic manages this dashboard.''\<rparr>"

text \<open>
  The same services with a duplicate-title check that rejects: for \<open>Report B\<close> with
  an \<open>Error\<close> whose message is empty, for any other title with a value that has no
  message.
\<close>

definition demo_env_rejecting :: dashboard_services where
  "demo_env_rejecting =
     demo_env\<lparr>checkForDuplicateDashboardTitle :=
                (\<lambda>a. if dup_title a = ''Report B'' then Inl (JsError []) else Inl JsValue)\<rparr>"

definition demo_world :: dashboard_world where
  "demo_world = \<lparr>backup = [''d1'', ''d3''], unsavedDashboardIds = [''d1'', ''d3''],
                 clock_reads = 0, effects = []\<rparr>"

text \<open>
  A visualization service with two items, \<open>v1\<close> (titled \<open>Report A\<close>) and \<open>v2\<close>, whose
  conversion failed and which carries an error; the title \<open>Report B\<close> is taken.
\<close>

definition demo_vis :: vis_list_item where
  "demo_vis =
     \<lparr>vis_id = ''v1'', vis_title = ''Report A'', vis_description = None, vis_type = None,
      savedObjectType = ''visualization'', vis_readOnly = None, vis_error = None,
      vis_editor = None, vis_managed = Some True\<rparr>"

definition demo_vis_error :: vis_list_item where
  "demo_vis_error =
     \<lparr>vis_id = ''v2'', vis_title = ''Broken'', vis_description = None, vis_type = None,
      savedObjectType = ''visualization'', vis_readOnly = None, vis_error = Some ''unknown type'',
      vis_editor = None, vis_managed = None\<rparr>"

definition demo_services :: vis_services where
  "demo_services =
     \<lparr>core_uiSettings_get = (\<lambda>k. if k = ''savedObjects:listingLimit'' then 1000 else 20),
      findListItems = (\<lambda>t l r x. Inr \<lparr>vf_total = 100, vf_hits = [demo_vis, demo_vis_error]\<rparr>),
      visualizeCapabilities = Some (\<lambda>k. if k = ''save'' then Some True else None),
      updateBasicSoAttributes = (\<lambda>i t a. Inr ()),
      checkForDuplicateTitle =
        (\<lambda>a c d. if dc_title a = ''Report B'' then Inl (JsError ''Saved Object already exists'')
                 else Inr True),
      deleteListItems = (\<lambda>items. Inr ())\<rparr>"

definition demo_component :: vis_component where
  "demo_component =
     \<lparr>visualizedUserContent = Some [toUserContent demo_vis, toUserContent demo_vis_error],
      calls = []\<rparr>"

section \<open>Properties of the email-option helper\<close>

lemma split_not_Nil: "split sep s \<noteq> []"
  by (induction s) (auto split: list.splits)

lemma set_keepFirst: "set (keepFirst xs) = set xs"
  by (induction xs rule: keepFirst.induct) auto

lemma distinct_keepFirst: "distinct (keepFirst xs)"
  by (induction xs rule: keepFirst.induct) (auto simp: set_keepFirst)

lemma fold_set_add:
  "foldl (\<lambda>s x. set_add x s) acc xs = acc @ keepFirst (filter (\<lambda>x. x \<notin> set acc) xs)"
proof (induction xs arbitrary: acc)
  case Nil
  show ?case by simp
next
  case (Cons x xs)
  show ?case
  proof (cases "x \<in> set acc")
    case True
    then show ?thesis using Cons.IH [of acc] by (simp add: set_add_def)
  next
    case False
    have "filter (\<lambda>y. y \<noteq> x) (filter (\<lambda>y. y \<notin> set acc) xs) = filter (\<lambda>y. y \<notin> set (acc @ [x])) xs"
      by (induction xs) auto
    with False show ?thesis using Cons.IH [of "acc @ [x]"] by (simp add: set_add_def)
  qed
qed

lemma keepFirst_append:
  "keepFirst (xs @ ys) = keepFirst xs @ keepFirst (filter (\<lambda>y. y \<notin> set xs) ys)"
proof (induction xs arbitrary: ys rule: keepFirst.induct)
  case 1
  show ?case by simp
next
  case (2 x xs)
  have "filter (\<lambda>y. y \<notin> set (filter (\<lambda>y. y \<noteq> x) xs)) (filter (\<lambda>y. y \<noteq> x) ys)
        = filter (\<lambda>y. y \<notin> set (x # xs)) ys"
    by (induction ys) auto
  with 2 [of "filter (\<lambda>y. y \<noteq> x) ys"] show ?case by simp
qed

lemma fold_trimmed:
  "foldl (\<lambda>s email. let trimmedEmail = trim email
                     in if trimmedEmail \<noteq> [] then set_add trimmedEmail s else s) acc es
   = foldl (\<lambda>s x. set_add x s) acc (filter (\<lambda>e. e \<noteq> []) (map trim es))"
  by (induction es arbitrary: acc) (simp_all add: Let_def)

lemma dropWhile_self: "xs = [] \<or> \<not> P (hd xs) \<Longrightarrow> dropWhile P xs = xs"
  by (cases xs) auto

lemma hd_rev_dropWhile_rev:
  assumes "rev (dropWhile P (rev a)) \<noteq> []"
  shows "hd (rev (dropWhile P (rev a))) = hd a"
proof -
  let ?k = "length (takeWhile P (rev a))"
  have "rev (dropWhile P (rev a)) = take (length a - ?k) a"
    by (simp add: dropWhile_eq_drop rev_drop)
  with assms show ?thesis
    by (cases "length a - ?k") (simp_all add: hd_take)
qed

lemma trim_ends:
  "trim e = [] \<or> (\<not> isWhiteSpace (hd (trim e)) \<and> \<not> isWhiteSpace (last (trim e)))"
proof (cases "trim e = []")
  case True
  then show ?thesis by simp
next
  case False
  let ?a = "dropWhile isWhiteSpace e"
  let ?b = "dropWhile isWhiteSpace (rev ?a)"
  from False have b: "?b \<noteq> []" by (simp add: trim_def)
  then have "\<not> isWhiteSpace (hd ?b)" by (rule hd_dropWhile)
  with b have l: "\<not> isWhiteSpace (last (trim e))" by (simp add: trim_def last_rev)
  from b have a: "?a \<noteq> []" by (metis dropWhile.simps(1) rev.simps(1))
  then have "\<not> isWhiteSpace (hd ?a)" by (rule hd_dropWhile)
  moreover have "hd (trim e) = hd ?a"
    unfolding trim_def using False hd_rev_dropWhile_rev [of isWhiteSpace ?a] by (simp add: trim_def)
  ultimately show ?thesis using l by simp
qed

lemma trim_idem: "trim (trim e) = trim e"
proof -
  have "dropWhile isWhiteSpace (trim e) = trim e"
    using trim_ends [of e] by (auto intro: dropWhile_self)
  then have "trim (trim e) = rev (dropWhile isWhiteSpace (rev (trim e)))"
    by (simp add: trim_def)
  also have "\<dots> = trim e"
    by (simp add: trim_def)
  finally show ?thesis .
qed

lemma trim_blank_iff: "trim s = [] \<longleftrightarrow> (\<forall>c\<in>set s. isWhiteSpace c)"
proof -
  have "trim s = [] \<longleftrightarrow> (\<forall>x\<in>set (dropWhile isWhiteSpace s). isWhiteSpace x)"
    by (simp add: trim_def)
  also have "\<dots> \<longleftrightarrow> dropWhile isWhiteSpace (dropWhile isWhiteSpace s) = []"
    by (simp only: dropWhile_eq_Nil_conv)
  also have "\<dots> \<longleftrightarrow> dropWhile isWhiteSpace s = []"
    by (simp only: dropWhile_idem)
  also have "\<dots> \<longleftrightarrow> (\<forall>c\<in>set s. isWhiteSpace c)"
    by (simp only: dropWhile_eq_Nil_conv)
  finally show ?thesis .
qed

lemma labels_nonblank:
  assumes "trim searchValue \<noteq> []"
  shows "map label (getFormattedEmailOptions searchValue previousOptions)
         = keepFirst (map label previousOptions
                      @ filter (\<lambda>e. e \<noteq> []) (map trim (split comma searchValue)))"
proof -
  let ?prev = "map label previousOptions"
  let ?es = "filter (\<lambda>e. e \<noteq> []) (map trim (split comma searchValue))"
  have "map label (getFormattedEmailOptions searchValue previousOptions)
        = foldl (\<lambda>s x. set_add x s) (new_Set ?prev) ?es"
    using assms unfolding getFormattedEmailOptions_def fold_trimmed
    by (simp add: comp_def)
  moreover have "new_Set ?prev = keepFirst ?prev"
    by (simp add: new_Set_def fold_set_add)
  moreover have "foldl (\<lambda>s x. set_add x s) (keepFirst ?prev) ?es = keepFirst (?prev @ ?es)"
    unfolding fold_set_add keepFirst_append set_keepFirst ..
  ultimately show ?thesis by simp
qed


lemma example_result:
  "getFormattedEmailOptions (js ''a@x.com, b@x.com'') [\<lparr>label = js ''a@x.com''\<rparr>]
   = [\<lparr>label = js ''a@x.com''\<rparr>, \<lparr>label = js ''b@x.com''\<rparr>]"
  by (simp add: getFormattedEmailOptions_def js_def trim_def isWhiteSpace_def comma_def
      new_Set_def set_add_def)

text \<open>
  C10: when the search value is empty or consists only of whitespace, it trims to the
  empty string and the helper returns the previous options unchanged, whatever they
  are.
\<close>

theorem getFormattedEmailOptions_blank:
  "(\<forall>c\<in>set searchValue. isWhiteSpace c)
   \<Longrightarrow> trim searchValue = []
       \<and> getFormattedEmailOptions searchValue previousOptions = previousOptions"
  by (simp add: trim_blank_iff getFormattedEmailOptions_def)

theorem getFormattedEmailOptions_blank_witness:
  "trim (js '' '') = []
   \<and> getFormattedEmailOptions (js '' '')
        [\<lparr>label = js ''a@x.com''\<rparr>, \<lparr>label = js ''a@x.com''\<rparr>]
       = [\<lparr>label = js ''a@x.com''\<rparr>, \<lparr>label = js ''a@x.com''\<rparr>]"
proof -
  have blank: "\<forall>c\<in>set (js '' ''). isWhiteSpace c"
    by (simp add: js_def isWhiteSpace_def)
  from getFormattedEmailOptions_blank [OF blank] show ?thesis
    by blast
qed

text \<open>
  C6, as the code has it: the example with \<open>a@x.com, b@x.com\<close> holds, and whenever the raw text does
  not trim to the empty string, the labels of the result are the previous labels
  followed by the trimmed, non-empty entries of the text, each label kept at its first
  occurrence only. So the labels are distinct, they are exactly the previous labels and
  the trimmed non-empty entries (compared code unit by code unit, so case matters), and
  every label that is not a previous one is non-empty and has no surrounding whitespace.
  For a blank text the previous options come back as they are (C10), duplicates
  included, so the general part needs the text not to be blank.
\<close>

theorem getFormattedEmailOptions_dedup:
  "getFormattedEmailOptions (js ''a@x.com, b@x.com'') [\<lparr>label = js ''a@x.com''\<rparr>]
     = [\<lparr>label = js ''a@x.com''\<rparr>, \<lparr>label = js ''b@x.com''\<rparr>]
   \<and> (trim searchValue \<noteq> [] \<longrightarrow>
        map label (getFormattedEmailOptions searchValue previousOptions)
          = keepFirst (map label previousOptions
                       @ filter (\<lambda>e. e \<noteq> []) (map trim (split comma searchValue)))
        \<and> distinct (map label (getFormattedEmailOptions searchValue previousOptions))
        \<and> set (map label (getFormattedEmailOptions searchValue previousOptions))
            = label ` set previousOptions
              \<union> {trim e | e. e \<in> set (split comma searchValue) \<and> trim e \<noteq> []}
        \<and> (\<forall>l \<in> set (map label (getFormattedEmailOptions searchValue previousOptions)).
              l \<in> label ` set previousOptions \<or> (l \<noteq> [] \<and> trim l = l)))"
proof (intro conjI impI)
  show "getFormattedEmailOptions (js ''a@x.com, b@x.com'') [\<lparr>label = js ''a@x.com''\<rparr>]
     = [\<lparr>label = js ''a@x.com''\<rparr>, \<lparr>label = js ''b@x.com''\<rparr>]"
    by (rule example_result)
next
  assume nb: "trim searchValue \<noteq> []"
  let ?labels = "map label (getFormattedEmailOptions searchValue previousOptions)"
  let ?entries = "filter (\<lambda>e. e \<noteq> []) (map trim (split comma searchValue))"
  show eq: "?labels = keepFirst (map label previousOptions @ ?entries)"
    using nb by (rule labels_nonblank)
  show "distinct ?labels"
    unfolding eq by (rule distinct_keepFirst)
  have "set ?entries = {trim e | e. e \<in> set (split comma searchValue) \<and> trim e \<noteq> []}"
    by auto
  then show s: "set ?labels = label ` set previousOptions
              \<union> {trim e | e. e \<in> set (split comma searchValue) \<and> trim e \<noteq> []}"
    unfolding eq set_keepFirst by simp
  show "\<forall>l \<in> set ?labels. l \<in> label ` set previousOptions \<or> (l \<noteq> [] \<and> trim l = l)"
    unfolding s by (auto simp: trim_idem)
qed

theorem getFormattedEmailOptions_dedup_witness:
  "trim (js '' B@x.com ,a@x.com,, b@x.com,B@x.com'') \<noteq> []
   \<and> map label (getFormattedEmailOptions (js '' B@x.com ,a@x.com,, b@x.com,B@x.com'')
                  [\<lparr>label = js ''a@x.com''\<rparr>, \<lparr>label = js ''a@x.com''\<rparr>])
     = [js ''a@x.com'', js ''B@x.com'', js ''b@x.com'']"
proof -
  have nb: "trim (js '' B@x.com ,a@x.com,, b@x.com,B@x.com'') \<noteq> []"
    by (simp add: js_def trim_def isWhiteSpace_def)
  have "map label (getFormattedEmailOptions (js '' B@x.com ,a@x.com,, b@x.com,B@x.com'')
                  [\<lparr>label = js ''a@x.com''\<rparr>, \<lparr>label = js ''a@x.com''\<rparr>])
          = keepFirst (map label [\<lparr>label = js ''a@x.com''\<rparr>, \<lparr>label = js ''a@x.com''\<rparr>]
                       @ filter (\<lambda>e. e \<noteq> [])
                           (map trim (split comma (js '' B@x.com ,a@x.com,, b@x.com,B@x.com''))))"
    using getFormattedEmailOptions_dedup
      [of "js '' B@x.com ,a@x.com,, b@x.com,B@x.com''"
          "[\<lparr>label = js ''a@x.com''\<rparr>, \<lparr>label = js ''a@x.com''\<rparr>]"] nb
    by blast
  also have "\<dots> = [js ''a@x.com'', js ''B@x.com'', js ''b@x.com'']"
    by (simp add: js_def trim_def isWhiteSpace_def comma_def)
  finally show ?thesis using nb by blast
qed

text \<open>
  On a blank text duplicates are not collapsed: two equal previous options stay two.
\<close>

theorem getFormattedEmailOptions_duplicates_counterexample:
  "trim (js []) = []
   \<and> \<not> distinct (map label (getFormattedEmailOptions (js [])
                     [\<lparr>label = js ''a@x.com''\<rparr>, \<lparr>label = js ''a@x.com''\<rparr>]))"
  by (simp add: getFormattedEmailOptions_def js_def trim_def)

section \<open>Properties of the find operations\<close>

lemma searches_append: "searches (es @ fs) = searches es @ searches fs"
  by (induction es rule: searches.induct) simp_all

lemma findListItemsCalls_append:
  "findListItemsCalls (es @ fs) = findListItemsCalls es @ findListItemsCalls fs"
  by (induction es rule: findListItemsCalls.induct) simp_all


text \<open>
  C1: for any search term and any filter options, the one request that the dashboard
  adapter adds to the requests sent to the search service carries the term as given and,
  as page limit, the value of the setting \<open>savedObjects:listingLimit\<close>; the
  visualization adapter calls \<open>findListItems\<close> once more, with the term as given and
  that limit. With absent filter options (no options object, or one without references)
  the dashboard request has empty tag filters and the visualization call has no
  references.
\<close>

theorem find_request:
  "(\<exists>filters.
       searches (effects (snd (findDashboardListingItems env searchTerm options w)))
         = searches (effects w)
           @ [\<lparr>search = searchTerm,
               per_page = uiSettings_get env ''savedObjects:listingLimit'',
               tags = filters\<rparr>]
     \<and> (options = None \<or> options = Some \<lparr>references = None, referencesToExclude = None\<rparr>
          \<longrightarrow> filters = \<lparr>included = [], excluded = []\<rparr>))
   \<and> (\<exists>refs refsToExclude.
       findListItemsCalls (calls (snd (findVisualizationsForDashboard services searchTerm options c)))
         = findListItemsCalls (calls c)
           @ [(searchTerm, core_uiSettings_get services ''savedObjects:listingLimit'',
               refs, refsToExclude)]
     \<and> (options = None \<or> options = Some \<lparr>references = None, referencesToExclude = None\<rparr>
          \<longrightarrow> refs = None \<and> refsToExclude = None))"
proof (rule conjI)
  let ?refs = "case options of None \<Rightarrow> None | Some opts \<Rightarrow> references opts"
  let ?excl = "case options of None \<Rightarrow> None | Some opts \<Rightarrow> referencesToExclude opts"
  let ?filters = "\<lparr>included = (case getReferenceIds ?refs of None \<Rightarrow> [] | Some ids \<Rightarrow> ids),
                   excluded = (case getReferenceIds ?excl of None \<Rightarrow> [] | Some ids \<Rightarrow> ids)\<rparr>"
  have "searches (effects (snd (findDashboardListingItems env searchTerm options w)))
         = searches (effects w)
           @ [\<lparr>search = searchTerm,
               per_page = uiSettings_get env ''savedObjects:listingLimit'',
               tags = ?filters\<rparr>]"
    by (cases options)
       (simp_all add: findDashboardListingItems_def now_def emit_def
          SAVED_OBJECTS_LIMIT_SETTING_def searches_append Let_def split: sum.split)
  moreover have "options = None \<or> options = Some \<lparr>references = None, referencesToExclude = None\<rparr>
          \<longrightarrow> ?filters = \<lparr>included = [], excluded = []\<rparr>"
    by (auto simp: getReferenceIds_def)
  ultimately show "\<exists>filters.
       searches (effects (snd (findDashboardListingItems env searchTerm options w)))
         = searches (effects w)
           @ [\<lparr>search = searchTerm,
               per_page = uiSettings_get env ''savedObjects:listingLimit'',
               tags = filters\<rparr>]
     \<and> (options = None \<or> options = Some \<lparr>references = None, referencesToExclude = None\<rparr>
          \<longrightarrow> filters = \<lparr>included = [], excluded = []\<rparr>)"
    by (intro exI [of _ ?filters] conjI)
  have "findListItemsCalls (calls (snd (findVisualizationsForDashboard services searchTerm options c)))
         = findListItemsCalls (calls c)
           @ [(searchTerm, core_uiSettings_get services ''savedObjects:listingLimit'',
               ?refs, ?excl)]"
    by (simp add: findVisualizationsForDashboard_def call_def SAVED_OBJECTS_LIMIT_SETTING_def
        findListItemsCalls_append Let_def split: sum.split)
  moreover have "options = None \<or> options = Some \<lparr>references = None, referencesToExclude = None\<rparr>
          \<longrightarrow> ?refs = None \<and> ?excl = None"
    by auto
  ultimately show "\<exists>refs refsToExclude.
       findListItemsCalls (calls (snd (findVisualizationsForDashboard services searchTerm options c)))
         = findListItemsCalls (calls c)
           @ [(searchTerm, core_uiSettings_get services ''savedObjects:listingLimit'',
               refs, refsToExclude)]
     \<and> (options = None \<or> options = Some \<lparr>references = None, referencesToExclude = None\<rparr>
          \<longrightarrow> refs = None \<and> refsToExclude = None)"
    by (intro exI [of _ ?refs] exI [of _ ?excl] conjI)
qed

theorem find_request_witness:
  "searches (effects (snd (findDashboardListingItems demo_env ''sales'' None demo_world)))
     = [\<lparr>search = ''sales'', per_page = 1000, tags = \<lparr>included = [], excluded = []\<rparr>\<rparr>]
   \<and> findListItemsCalls
       (calls (snd (findVisualizationsForDashboard demo_services ''sales'' None demo_component)))
     = [(''sales'', 1000, None, None)]"
  using find_request [where options = None and env = demo_env and searchTerm = "''sales''"
      and w = demo_world and services = demo_services and c = demo_component]
  by (auto simp: demo_env_def demo_world_def demo_services_def demo_component_def)

text \<open>
  C2: whenever a find operation returns a result, the backend answered the request it
  sent, and the result's \<open>total\<close> is the total of that answer; and whenever the
  backend answers the request that is sent, the find operation returns a result with
  the total of that answer and the mapped hits of that answer. The number of hits plays
  no role (in the witness the backends report 100 matches and return one and two
  hits).
\<close>

theorem find_total:
  "(\<forall>result. fst (findDashboardListingItems env searchTerm options w) = Inr result \<longrightarrow>
      (\<exists>request response.
          searches (effects (snd (findDashboardListingItems env searchTerm options w)))
            = searches (effects w) @ [request]
        \<and> findService_search env request = Inr response
        \<and> total result = resp_total response))
   \<and> (\<forall>result. fst (findVisualizationsForDashboard services searchTerm options c) = Inr result \<longrightarrow>
      (\<exists>limit refs refsToExclude response.
          findListItemsCalls (calls (snd (findVisualizationsForDashboard services searchTerm options c)))
            = findListItemsCalls (calls c) @ [(searchTerm, limit, refs, refsToExclude)]
        \<and> findListItems services searchTerm limit refs refsToExclude = Inr response
        \<and> total result = vf_total response))
   \<and> (\<forall>request response.
          searches (effects (snd (findDashboardListingItems env searchTerm options w)))
            = searches (effects w) @ [request]
        \<and> findService_search env request = Inr response
        \<longrightarrow> fst (findDashboardListingItems env searchTerm options w)
              = Inr \<lparr>total = resp_total response,
                     hits = map (toDashboardItem (tagIdToReference env)) (resp_dashboards response)\<rparr>)
   \<and> (\<forall>limit refs refsToExclude response.
          findListItemsCalls (calls (snd (findVisualizationsForDashboard services searchTerm options c)))
            = findListItemsCalls (calls c) @ [(searchTerm, limit, refs, refsToExclude)]
        \<and> findListItems services searchTerm limit refs refsToExclude = Inr response
        \<longrightarrow> fst (findVisualizationsForDashboard services searchTerm options c)
              = Inr \<lparr>total = vf_total response, hits = map toUserContent (vf_hits response)\<rparr>)"
proof (intro conjI allI impI)
  fix result
  assume "fst (findDashboardListingItems env searchTerm options w) = Inr result"
  then show "\<exists>request response.
          searches (effects (snd (findDashboardListingItems env searchTerm options w)))
            = searches (effects w) @ [request]
        \<and> findService_search env request = Inr response
        \<and> total result = resp_total response"
    by (auto simp: findDashboardListingItems_def now_def emit_def Let_def searches_append
        split: sum.splits prod.splits)
next
  fix result
  assume "fst (findVisualizationsForDashboard services searchTerm options c) = Inr result"
  then show "\<exists>limit refs refsToExclude response.
          findListItemsCalls (calls (snd (findVisualizationsForDashboard services searchTerm options c)))
            = findListItemsCalls (calls c) @ [(searchTerm, limit, refs, refsToExclude)]
        \<and> findListItems services searchTerm limit refs refsToExclude = Inr response
        \<and> total result = vf_total response"
    by (auto simp: findVisualizationsForDashboard_def call_def Let_def findListItemsCalls_append
        split: sum.splits)
next
  fix request response
  assume "searches (effects (snd (findDashboardListingItems env searchTerm options w)))
            = searches (effects w) @ [request]
        \<and> findService_search env request = Inr response"
  then show "fst (findDashboardListingItems env searchTerm options w)
              = Inr \<lparr>total = resp_total response,
                     hits = map (toDashboardItem (tagIdToReference env)) (resp_dashboards response)\<rparr>"
    by (auto simp: findDashboardListingItems_def now_def emit_def Let_def searches_append
        split: sum.splits prod.splits)
next
  fix limit refs refsToExclude response
  assume "findListItemsCalls (calls (snd (findVisualizationsForDashboard services searchTerm options c)))
            = findListItemsCalls (calls c) @ [(searchTerm, limit, refs, refsToExclude)]
        \<and> findListItems services searchTerm limit refs refsToExclude = Inr response"
  then show "fst (findVisualizationsForDashboard services searchTerm options c)
              = Inr \<lparr>total = vf_total response, hits = map toUserContent (vf_hits response)\<rparr>"
    by (auto simp: findVisualizationsForDashboard_def call_def Let_def findListItemsCalls_append
        split: sum.splits)
qed

theorem find_total_witness:
  "findService_search demo_env
      \<lparr>search = ''sales'', per_page = 1000, tags = \<lparr>included = [], excluded = []\<rparr>\<rparr>
     = Inr \<lparr>resp_total = 100, resp_dashboards = [demo_hit]\<rparr>
   \<and> fst (findDashboardListingItems demo_env ''sales'' None demo_world)
     = Inr \<lparr>total = 100, hits = [toDashboardItem None demo_hit]\<rparr>
   \<and> findListItems demo_services ''sales'' 1000 None None
     = Inr \<lparr>vf_total = 100, vf_hits = [demo_vis, demo_vis_error]\<rparr>
   \<and> fst (findVisualizationsForDashboard demo_services ''sales'' None demo_component)
     = Inr \<lparr>total = 100, hits = [toUserContent demo_vis, toUserContent demo_vis_error]\<rparr>"
proof -
  let ?request = "\<lparr>search = ''sales'', per_page = 1000, tags = \<lparr>included = [], excluded = []\<rparr>\<rparr>"
  let ?response = "\<lparr>resp_total = 100, resp_dashboards = [demo_hit]\<rparr>"
  let ?vresponse = "\<lparr>vf_total = 100, vf_hits = [demo_vis, demo_vis_error]\<rparr>"
  have sent: "searches (effects (snd (findDashboardListingItems demo_env ''sales'' None demo_world)))
                = searches (effects demo_world) @ [?request]"
    by (simp add: findDashboardListingItems_def demo_env_def demo_world_def now_def emit_def
        getReferenceIds_def SAVED_OBJECTS_LIMIT_SETTING_def)
  have answer: "findService_search demo_env ?request = Inr ?response"
    by (simp add: demo_env_def)
  have vsent: "findListItemsCalls
                 (calls (snd (findVisualizationsForDashboard demo_services ''sales'' None demo_component)))
                = findListItemsCalls (calls demo_component) @ [(''sales'', 1000, None, None)]"
    by (simp add: findVisualizationsForDashboard_def demo_services_def demo_component_def call_def
        SAVED_OBJECTS_LIMIT_SETTING_def)
  have vanswer: "findListItems demo_services ''sales'' 1000 None None = Inr ?vresponse"
    by (simp add: demo_services_def)
  note t = find_total [where env = demo_env and searchTerm = "''sales''" and options = None
      and w = demo_world and services = demo_services and c = demo_component]
  from t sent answer
  have d: "fst (findDashboardListingItems demo_env ''sales'' None demo_world)
     = Inr \<lparr>total = resp_total ?response,
            hits = map (toDashboardItem (tagIdToReference demo_env)) (resp_dashboards ?response)\<rparr>"
    by blast
  from t vsent vanswer
  have v: "fst (findVisualizationsForDashboard demo_services ''sales'' None demo_component)
     = Inr \<lparr>total = vf_total ?vresponse, hits = map toUserContent (vf_hits ?vresponse)\<rparr>"
    by blast
  from d v answer vanswer show ?thesis
    by (simp add: demo_env_def)
qed

section \<open>Properties of the delete handlers\<close>











section \<open>Properties of the row actions and the title click\<close>

text \<open>
  C4: for an item whose \<open>managed\<close> flag is true, \<open>rowItemActions\<close> returns an
  object whose \<open>edit.enabled\<close> is false, in the dashboard listing whatever
  \<open>showWriteControls\<close> is and in the visualization listing whatever the save
  capability is.
\<close>

theorem managed_edit_disabled:
  "(managed item = Some True \<longrightarrow>
      (\<exists>actions. dashboard_rowItemActions env item = Some actions \<and> enabled (edit actions) = False))
   \<and> (uc_managed content = Some True \<longrightarrow>
      (\<exists>actions. rowItemActions services content = Some actions \<and> enabled (edit actions) = False))"
  by (simp add: dashboard_rowItemActions_def rowItemActions_def truthy_bool_def Let_def)

theorem managed_edit_disabled_witness:
  "managed (toDashboardItem None demo_hit) = Some True
   \<and> showWriteControls demo_env
   \<and> (\<exists>actions. dashboard_rowItemActions demo_env (toDashboardItem None demo_hit) = Some actions
          \<and> enabled (edit actions) = False)
   \<and> uc_managed (toUserContent demo_vis) = Some True
   \<and> canSave demo_services
   \<and> (\<exists>actions. rowItemActions demo_services (toUserContent demo_vis) = Some actions
          \<and> enabled (edit actions) = False)"
proof -
  have m: "managed (toDashboardItem None demo_hit) = Some True"
    by (simp add: toDashboardItem_def demo_hit_def)
  have v: "uc_managed (toUserContent demo_vis) = Some True"
    by (simp add: toUserContent_def demo_vis_def)
  have s: "showWriteControls demo_env" "canSave demo_services"
    by (simp_all add: demo_env_def demo_services_def canSave_def capability_def)
  from managed_edit_disabled
         [of "toDashboardItem None demo_hit" demo_env "toUserContent demo_vis" demo_services] m v s
  show ?thesis by blast
qed

text \<open>
  C5, as the code has it: \<open>getOnClickTitle\<close> returns undefined for an item that is
  read-only or carries an error; for an item that is neither, it returns a handler, and
  invoking the handler is calling \<open>editItem\<close> on that item. An item that is not
  read-only but carries an error gets no handler, so "every item without the read-only
  flag gets a handler" is not what the code does.
\<close>

theorem getOnClickTitle_handler:
  "(va_readOnly (uc_attributes item) \<or> truthy (uc_error item)
      \<longrightarrow> getOnClickTitle services item = None)
   \<and> (\<not> va_readOnly (uc_attributes item) \<and> \<not> truthy (uc_error item)
      \<longrightarrow> (\<exists>handler. getOnClickTitle services item = Some handler
             \<and> (\<forall>c. handler c = editItem services item c)))"
  by (simp add: getOnClickTitle_def)

theorem getOnClickTitle_handler_witness:
  "\<not> va_readOnly (uc_attributes (toUserContent demo_vis))
   \<and> \<not> truthy (uc_error (toUserContent demo_vis))
   \<and> (\<exists>handler. getOnClickTitle demo_services (toUserContent demo_vis) = Some handler
         \<and> handler demo_component
             = (Inr (), demo_component\<lparr>calls := [NavigateToVisualization ''v1'']\<rparr>))"
proof -
  have n: "\<not> va_readOnly (uc_attributes (toUserContent demo_vis))"
       "\<not> truthy (uc_error (toUserContent demo_vis))"
    by (simp_all add: toUserContent_def demo_vis_def truthy_def)
  have e: "editItem demo_services (toUserContent demo_vis) demo_component
           = (Inr (), demo_component\<lparr>calls := [NavigateToVisualization ''v1'']\<rparr>)"
    by (simp add: editItem_def toUserContent_def demo_vis_def call_def demo_component_def)
  from getOnClickTitle_handler [of "toUserContent demo_vis" demo_services] n
  obtain handler where "getOnClickTitle demo_services (toUserContent demo_vis) = Some handler"
    and "\<forall>c. handler c = editItem demo_services (toUserContent demo_vis) c"
    by blast
  with e n show ?thesis by auto
qed

text \<open>
  An item that is not read-only and carries an error: no handler.
\<close>

theorem getOnClickTitle_error_counterexample:
  "\<not> va_readOnly (uc_attributes (toUserContent demo_vis_error))
   \<and> getOnClickTitle demo_services (toUserContent demo_vis_error) = None"
  by (simp add: getOnClickTitle_def toUserContent_def demo_vis_error_def truthy_def)

section \<open>Properties of the title validators\<close>

lemma duplicateTitleWarning_not_empty: "duplicateTitleWarning value \<noteq> []"
  by (simp add: duplicateTitleWarning_def)

lemma validator_fn_resolves: "\<exists>r. validator_fn services c value i = Inr r"
  by (simp add: validator_fn_def split: option.split sum.split)

lemma message_cases: "(\<exists>r. message e = Inr r) \<or> message e = Inl TypeError"
  by (cases e) simp_all

lemma dashboard_validator_fn_settles:
  "(\<exists>r. dashboard_validator_fn env value i = Inr r)
   \<or> dashboard_validator_fn env value i = Inl TypeError"
proof (cases "i \<noteq> []")
  case False
  then show ?thesis by (simp add: dashboard_validator_fn_def)
next
  case True
  show ?thesis
  proof (cases "dashboard_validator_try env value i")
    case (Inl e)
    with True message_cases [of e] show ?thesis
      by (simp add: dashboard_validator_fn_def)
  next
    case (Inr r)
    with True show ?thesis by (simp add: dashboard_validator_fn_def)
  qed
qed

text \<open>
  C7, as the code has it: the title validator of either listing is a single validator of
  type \<open>warning\<close>. In the visualization listing its promise always resolves: for an
  item of the cache, a rejection of \<open>checkForDuplicateTitle\<close> gives the non-empty
  message "Saving "\<dots>" creates a duplicate title." and a success gives no message;
  without an id or for an id that is not cached there is no message. In the dashboard
  listing, for a dashboard that \<open>findById\<close> finds, a title that
  \<open>checkForDuplicateDashboardTitle\<close> does not accept (it resolves to false) gives the
  string of \<open>getDuplicateTitleWarning\<close>, non-empty when that string is, and an
  accepted title gives no message; but when the check or \<open>findById\<close> rejects, the
  validator returns the \<open>message\<close> of what was thrown: the message of an
  \<open>Error\<close>, empty if that is empty, nothing for a value without a message, and for
  \<open>undefined\<close> or \<open>null\<close> the validator itself rejects with a \<open>TypeError\<close>,
  which is the only way it rejects. So a rejecting check does not always give a
  non-empty warning.
\<close>

theorem title_validator_warning:
  "map vtype (contentEditorValidators services c) = [Warning]
   \<and> map vfn (contentEditorValidators services c) = [validator_fn services c]
   \<and> map vtype (dashboard_contentEditorValidators env) = [Warning]
   \<and> map vfn (dashboard_contentEditorValidators env) = [dashboard_validator_fn env]
   \<and> (\<exists>r. validator_fn services c value i = Inr r)
   \<and> (i \<noteq> [] \<and> findContent c i = Some content \<longrightarrow>
        (\<forall>e. checkForDuplicateTitle services
                \<lparr>dc_id = i, dc_title = value, dc_lastSavedTitle = uc_title content\<rparr> False False = Inl e
             \<longrightarrow> validator_fn services c value i = Inr (Some (duplicateTitleWarning value))
                 \<and> duplicateTitleWarning value \<noteq> [])
        \<and> (\<forall>ok. checkForDuplicateTitle services
                \<lparr>dc_id = i, dc_title = value, dc_lastSavedTitle = uc_title content\<rparr> False False = Inr ok
             \<longrightarrow> validator_fn services c value i = Inr None))
   \<and> (i = [] \<or> findContent c i = None \<longrightarrow> validator_fn services c value i = Inr None)
   \<and> ((\<exists>r. dashboard_validator_fn env value j = Inr r)
        \<or> dashboard_validator_fn env value j = Inl TypeError)
   \<and> (j \<noteq> [] \<and> findService_findById env j = Inr (FindSuccess savedTitle refs) \<longrightarrow>
        (checkForDuplicateDashboardTitle env
            \<lparr>dup_title = value, copyOnSave = False, lastSavedTitle = savedTitle,
             isTitleDuplicateConfirmed = False\<rparr> = Inr False
           \<longrightarrow> dashboard_validator_fn env value j = Inr (Some (getDuplicateTitleWarning env value))
               \<and> (getDuplicateTitleWarning env value \<noteq> []
                    \<longrightarrow> (\<exists>msg. dashboard_validator_fn env value j = Inr (Some msg) \<and> msg \<noteq> [])))
        \<and> (checkForDuplicateDashboardTitle env
            \<lparr>dup_title = value, copyOnSave = False, lastSavedTitle = savedTitle,
             isTitleDuplicateConfirmed = False\<rparr> = Inr True
           \<longrightarrow> dashboard_validator_fn env value j = Inr None)
        \<and> (\<forall>m. checkForDuplicateDashboardTitle env
            \<lparr>dup_title = value, copyOnSave = False, lastSavedTitle = savedTitle,
             isTitleDuplicateConfirmed = False\<rparr> = Inl (JsError m)
           \<longrightarrow> dashboard_validator_fn env value j = Inr (Some m))
        \<and> (checkForDuplicateDashboardTitle env
            \<lparr>dup_title = value, copyOnSave = False, lastSavedTitle = savedTitle,
             isTitleDuplicateConfirmed = False\<rparr> = Inl JsValue
           \<longrightarrow> dashboard_validator_fn env value j = Inr None)
        \<and> (checkForDuplicateDashboardTitle env
            \<lparr>dup_title = value, copyOnSave = False, lastSavedTitle = savedTitle,
             isTitleDuplicateConfirmed = False\<rparr> = Inl JsNullish
           \<longrightarrow> dashboard_validator_fn env value j = Inl TypeError))
   \<and> (\<forall>e. j \<noteq> [] \<and> findService_findById env j = Inl e
          \<longrightarrow> dashboard_validator_fn env value j = message e)
   \<and> (\<forall>e. j \<noteq> [] \<and> findService_findById env j = Inr (FindError e)
          \<longrightarrow> dashboard_validator_fn env value j = Inr None)
   \<and> (j = [] \<longrightarrow> dashboard_validator_fn env value j = Inr None)"
proof (intro conjI)
  show "\<exists>r. validator_fn services c value i = Inr r"
    by (rule validator_fn_resolves)
  show "(\<exists>r. dashboard_validator_fn env value j = Inr r)
        \<or> dashboard_validator_fn env value j = Inl TypeError"
    by (rule dashboard_validator_fn_settles)
  show "i \<noteq> [] \<and> findContent c i = Some content \<longrightarrow>
        (\<forall>e. checkForDuplicateTitle services
                \<lparr>dc_id = i, dc_title = value, dc_lastSavedTitle = uc_title content\<rparr> False False = Inl e
             \<longrightarrow> validator_fn services c value i = Inr (Some (duplicateTitleWarning value))
                 \<and> duplicateTitleWarning value \<noteq> [])
        \<and> (\<forall>ok. checkForDuplicateTitle services
                \<lparr>dc_id = i, dc_title = value, dc_lastSavedTitle = uc_title content\<rparr> False False = Inr ok
             \<longrightarrow> validator_fn services c value i = Inr None)"
    by (simp add: validator_fn_def duplicateTitleWarning_not_empty)
  show "i = [] \<or> findContent c i = None \<longrightarrow> validator_fn services c value i = Inr None"
    by (auto simp: validator_fn_def)
  show "j \<noteq> [] \<and> findService_findById env j = Inr (FindSuccess savedTitle refs) \<longrightarrow>
        (checkForDuplicateDashboardTitle env
            \<lparr>dup_title = value, copyOnSave = False, lastSavedTitle = savedTitle,
             isTitleDuplicateConfirmed = False\<rparr> = Inr False
           \<longrightarrow> dashboard_validator_fn env value j = Inr (Some (getDuplicateTitleWarning env value))
               \<and> (getDuplicateTitleWarning env value \<noteq> []
                    \<longrightarrow> (\<exists>msg. dashboard_validator_fn env value j = Inr (Some msg) \<and> msg \<noteq> [])))
        \<and> (checkForDuplicateDashboardTitle env
            \<lparr>dup_title = value, copyOnSave = False, lastSavedTitle = savedTitle,
             isTitleDuplicateConfirmed = False\<rparr> = Inr True
           \<longrightarrow> dashboard_validator_fn env value j = Inr None)
        \<and> (\<forall>m. checkForDuplicateDashboardTitle env
            \<lparr>dup_title = value, copyOnSave = False, lastSavedTitle = savedTitle,
             isTitleDuplicateConfirmed = False\<rparr> = Inl (JsError m)
           \<longrightarrow> dashboard_validator_fn env value j = Inr (Some m))
        \<and> (checkForDuplicateDashboardTitle env
            \<lparr>dup_title = value, copyOnSave = False, lastSavedTitle = savedTitle,
             isTitleDuplicateConfirmed = False\<rparr> = Inl JsValue
           \<longrightarrow> dashboard_validator_fn env value j = Inr None)
        \<and> (checkForDuplicateDashboardTitle env
            \<lparr>dup_title = value, copyOnSave = False, lastSavedTitle = savedTitle,
             isTitleDuplicateConfirmed = False\<rparr> = Inl JsNullish
           \<longrightarrow> dashboard_validator_fn env value j = Inl TypeError)"
    by (simp add: dashboard_validator_fn_def dashboard_validator_try_def)
  show "\<forall>e. j \<noteq> [] \<and> findService_findById env j = Inl e
          \<longrightarrow> dashboard_validator_fn env value j = message e"
    by (simp add: dashboard_validator_fn_def dashboard_validator_try_def)
  show "\<forall>e. j \<noteq> [] \<and> findService_findById env j = Inr (FindError e)
          \<longrightarrow> dashboard_validator_fn env value j = Inr None"
    by (simp add: dashboard_validator_fn_def dashboard_validator_try_def)
  show "j = [] \<longrightarrow> dashboard_validator_fn env value j = Inr None"
    by (simp add: dashboard_validator_fn_def)
qed (simp_all add: contentEditorValidators_def dashboard_contentEditorValidators_def)

theorem title_validator_warning_witness:
  "findContent demo_component ''v1'' = Some (toUserContent demo_vis)
   \<and> validator_fn demo_services demo_component ''Report B'' ''v1''
       = Inr (Some (''Saving '' @ [CHR 0x22] @ ''Report B'' @ [CHR 0x22] @ '' creates a duplicate title.''))
   \<and> validator_fn demo_services demo_component ''Report C'' ''v1'' = Inr None
   \<and> findService_findById demo_env ''d1'' = Inr (FindSuccess ''Report A'' [])
   \<and> dashboard_validator_fn demo_env ''Report B'' ''d1''
       = Inr (Some (''Saving '' @ [CHR 0x22] @ ''Report B'' @ [CHR 0x22] @ '' creates a duplicate title.''))
   \<and> dashboard_validator_fn demo_env ''Report C'' ''d1'' = Inr None"
proof -
  have fc: "findContent demo_component ''v1'' = Some (toUserContent demo_vis)"
    by (simp add: findContent_def demo_component_def toUserContent_def demo_vis_def)
  have t: "uc_title (toUserContent demo_vis) = ''Report A''"
    by (simp add: toUserContent_def demo_vis_def)
  have rej: "checkForDuplicateTitle demo_services
               \<lparr>dc_id = ''v1'', dc_title = ''Report B'', dc_lastSavedTitle = ''Report A''\<rparr> False False
             = Inl (JsError ''Saved Object already exists'')"
    and acc: "checkForDuplicateTitle demo_services
               \<lparr>dc_id = ''v1'', dc_title = ''Report C'', dc_lastSavedTitle = ''Report A''\<rparr> False False
             = Inr True"
    by (simp_all add: demo_services_def)
  have fb: "findService_findById demo_env ''d1'' = Inr (FindSuccess ''Report A'' [])"
    by (simp add: demo_env_def)
  have drej: "checkForDuplicateDashboardTitle demo_env
            \<lparr>dup_title = ''Report B'', copyOnSave = False, lastSavedTitle = ''Report A'',
             isTitleDuplicateConfirmed = False\<rparr> = Inr False"
    and dacc: "checkForDuplicateDashboardTitle demo_env
            \<lparr>dup_title = ''Report C'', copyOnSave = False, lastSavedTitle = ''Report A'',
             isTitleDuplicateConfirmed = False\<rparr> = Inr True"
    by (simp_all add: demo_env_def)
  have w: "getDuplicateTitleWarning demo_env = duplicateTitleWarning"
    by (simp add: demo_env_def)
  from title_validator_warning
         [of demo_services demo_component demo_env "''Report B''" "''v1''"
             "toUserContent demo_vis" "''d1''" "''Report A''" "[]"]
       fc t rej fb drej
  have b: "validator_fn demo_services demo_component ''Report B'' ''v1''
             = Inr (Some (duplicateTitleWarning ''Report B''))
           \<and> dashboard_validator_fn demo_env ''Report B'' ''d1''
             = Inr (Some (getDuplicateTitleWarning demo_env ''Report B''))"
    by simp
  from title_validator_warning
         [of demo_services demo_component demo_env "''Report C''" "''v1''"
             "toUserContent demo_vis" "''d1''" "''Report A''" "[]"]
       fc t acc fb dacc
  have c: "validator_fn demo_services demo_component ''Report C'' ''v1'' = Inr None
           \<and> dashboard_validator_fn demo_env ''Report C'' ''d1'' = Inr None"
    by auto
  from b c fc fb w show ?thesis
    by (simp add: duplicateTitleWarning_def)
qed

text \<open>
  A dashboard that is found and a check that rejects: with an \<open>Error\<close> whose message
  is empty the validator returns the empty string, and with a value that has no message
  it returns no message at all.
\<close>

theorem dashboard_validator_rejecting_check_counterexample:
  "findService_findById demo_env_rejecting ''d1'' = Inr (FindSuccess ''Report A'' [])
   \<and> checkForDuplicateDashboardTitle demo_env_rejecting
        \<lparr>dup_title = ''Report B'', copyOnSave = False, lastSavedTitle = ''Report A'',
         isTitleDuplicateConfirmed = False\<rparr> = Inl (JsError [])
   \<and> dashboard_validator_fn demo_env_rejecting ''Report B'' ''d1'' = Inr (Some [])
   \<and> checkForDuplicateDashboardTitle demo_env_rejecting
        \<lparr>dup_title = ''Report C'', copyOnSave = False, lastSavedTitle = ''Report A'',
         isTitleDuplicateConfirmed = False\<rparr> = Inl JsValue
   \<and> dashboard_validator_fn demo_env_rejecting ''Report C'' ''d1'' = Inr None"
  by (simp add: demo_env_rejecting_def demo_env_def dashboard_validator_fn_def
      dashboard_validator_try_def)

section \<open>Properties of the content editor save handler\<close>

lemma find_None_iff: "find P xs = None \<longleftrightarrow> (\<forall>x\<in>set xs. \<not> P x)"
  by (induction xs) auto

lemma find_Some_holds: "find P xs = Some x \<Longrightarrow> P x \<and> x \<in> set xs"
  by (induction xs) (auto split: if_splits)

lemma toUserContent_ids:
  "uc_id (toUserContent vis) = vis_id vis"
  "va_id (uc_attributes (toUserContent vis)) = vis_id vis"
  by (simp_all add: toUserContent_def)

lemma find_map_toUserContent:
  "find (\<lambda>x. uc_id x = i) (map toUserContent raw) = Some item \<Longrightarrow> va_id (uc_attributes item) = i"
  by (induction raw) (auto simp: toUserContent_ids split: if_splits)

text \<open>
  C8: when the id of the save arguments is not among the ids of the cached result set
  (or nothing is cached yet), \<open>onContentEditorSave\<close> resolves and leaves the
  component as it was: no update call, no error. When the id is among them, the first
  cached item with that id is the one updated: exactly one call of
  \<open>updateBasicSoAttributes\<close> is added, with the title, the description (the empty
  string when absent) and the tags of the arguments; the cache is unchanged and the
  handler settles as that call does. For a cache filled by a search the id passed to the
  update is the id of the arguments.
\<close>

lemma findItems_cache:
  "findItems services searchTerm options c = (Inr result, c')
   \<Longrightarrow> visualizedUserContent c' = Some (hits result)
       \<and> (\<exists>raw. hits result = map toUserContent raw)"
  by (fastforce simp: findItems_def findVisualizationsForDashboard_def Let_def split: sum.splits)

theorem onContentEditorSave_cache:
  "((visualizedUserContent c = None
      \<or> (\<exists>content. visualizedUserContent c = Some content \<and> args_id args \<notin> uc_id ` set content))
     \<longrightarrow> onContentEditorSave services args c = (Inr (), c))
   \<and> (\<forall>content. visualizedUserContent c = Some content \<and> args_id args \<in> uc_id ` set content
        \<longrightarrow> (\<exists>item \<in> set content.
               uc_id item = args_id args
             \<and> find (\<lambda>x. uc_id x = args_id args) content = Some item
             \<and> calls (snd (onContentEditorSave services args c))
                 = calls c
                   @ [UpdateBasicSoAttributes (va_id (uc_attributes item)) (uc_type item)
                        \<lparr>ba_title = args_title args,
                         ba_description = (case args_description args of None \<Rightarrow> [] | Some d \<Rightarrow> d),
                         ba_tags = args_tags args\<rparr>]
             \<and> visualizedUserContent (snd (onContentEditorSave services args c))
                 = visualizedUserContent c
             \<and> fst (onContentEditorSave services args c)
                 = updateBasicSoAttributes services (va_id (uc_attributes item)) (uc_type item)
                     \<lparr>ba_title = args_title args,
                      ba_description = (case args_description args of None \<Rightarrow> [] | Some d \<Rightarrow> d),
                      ba_tags = args_tags args\<rparr>))
   \<and> (\<forall>raw item. visualizedUserContent c = Some (map toUserContent raw)
          \<and> find (\<lambda>x. uc_id x = args_id args) (map toUserContent raw) = Some item
        \<longrightarrow> va_id (uc_attributes item) = args_id args)"
proof (intro conjI allI impI)
  fix raw item
  assume "visualizedUserContent c = Some (map toUserContent raw)
          \<and> find (\<lambda>x. uc_id x = args_id args) (map toUserContent raw) = Some item"
  then show "va_id (uc_attributes item) = args_id args"
    by (blast dest: find_map_toUserContent)
next
  assume "visualizedUserContent c = None
      \<or> (\<exists>content. visualizedUserContent c = Some content \<and> args_id args \<notin> uc_id ` set content)"
  then have "findContent c (args_id args) = None"
    by (force simp: findContent_def find_None_iff)
  then show "onContentEditorSave services args c = (Inr (), c)"
    by (simp add: onContentEditorSave_def)
next
  fix content
  assume h: "visualizedUserContent c = Some content \<and> args_id args \<in> uc_id ` set content"
  then obtain item where f: "find (\<lambda>x. uc_id x = args_id args) content = Some item"
    by (cases "find (\<lambda>x. uc_id x = args_id args) content") (auto simp: find_None_iff)
  then have i: "uc_id item = args_id args" "item \<in> set content"
    using find_Some_holds [OF f] by simp_all
  from h f have fc: "findContent c (args_id args) = Some item"
    by (simp add: findContent_def)
  show "\<exists>item \<in> set content.
               uc_id item = args_id args
             \<and> find (\<lambda>x. uc_id x = args_id args) content = Some item
             \<and> calls (snd (onContentEditorSave services args c))
                 = calls c
                   @ [UpdateBasicSoAttributes (va_id (uc_attributes item)) (uc_type item)
                        \<lparr>ba_title = args_title args,
                         ba_description = (case args_description args of None \<Rightarrow> [] | Some d \<Rightarrow> d),
                         ba_tags = args_tags args\<rparr>]
             \<and> visualizedUserContent (snd (onContentEditorSave services args c))
                 = visualizedUserContent c
             \<and> fst (onContentEditorSave services args c)
                 = updateBasicSoAttributes services (va_id (uc_attributes item)) (uc_type item)
                     \<lparr>ba_title = args_title args,
                      ba_description = (case args_description args of None \<Rightarrow> [] | Some d \<Rightarrow> d),
                      ba_tags = args_tags args\<rparr>"
    using i f fc by (intro bexI [of _ item]) (simp_all add: onContentEditorSave_def call_def Let_def)
qed

theorem onContentEditorSave_cache_witness:
  "onContentEditorSave demo_services
      \<lparr>args_id = ''gone'', args_title = ''T'', args_description = None, args_tags = []\<rparr>
      demo_component = (Inr (), demo_component)
   \<and> calls (snd (onContentEditorSave demo_services
        \<lparr>args_id = ''v1'', args_title = ''T'', args_description = None, args_tags = [''t1'']\<rparr>
        demo_component))
      = [UpdateBasicSoAttributes ''v1'' ''visualization''
           \<lparr>ba_title = ''T'', ba_description = [], ba_tags = [''t1'']\<rparr>]"
proof -
  let ?stale = "\<lparr>args_id = ''gone'', args_title = ''T'', args_description = None, args_tags = []\<rparr>"
  let ?known = "\<lparr>args_id = ''v1'', args_title = ''T'', args_description = None, args_tags = [''t1'']\<rparr>"
  let ?cache = "[toUserContent demo_vis, toUserContent demo_vis_error]"
  have cache: "visualizedUserContent demo_component = Some ?cache"
    by (simp add: demo_component_def)
  have nomatch: "args_id ?stale \<notin> uc_id ` set ?cache"
    by (simp add: toUserContent_def demo_vis_def demo_vis_error_def)
  have match: "args_id ?known \<in> uc_id ` set ?cache"
    by (simp add: toUserContent_def demo_vis_def demo_vis_error_def)
  have miss: "onContentEditorSave demo_services ?stale demo_component = (Inr (), demo_component)"
    using onContentEditorSave_cache [of demo_component ?stale demo_services] cache nomatch
    by blast
  from onContentEditorSave_cache [of demo_component ?known demo_services] cache match
  obtain item where "find (\<lambda>x. uc_id x = args_id ?known) ?cache = Some item"
    and c: "calls (snd (onContentEditorSave demo_services ?known demo_component))
          = calls demo_component
            @ [UpdateBasicSoAttributes (va_id (uc_attributes item)) (uc_type item)
                 \<lparr>ba_title = args_title ?known,
                  ba_description = (case args_description ?known of None \<Rightarrow> [] | Some d \<Rightarrow> d),
                  ba_tags = args_tags ?known\<rparr>]"
    by blast
  then have "item = toUserContent demo_vis"
    by (simp add: toUserContent_def demo_vis_def)
  with c have "calls (snd (onContentEditorSave demo_services ?known demo_component))
      = [UpdateBasicSoAttributes ''v1'' ''visualization''
           \<lparr>ba_title = ''T'', ba_description = [], ba_tags = [''t1'']\<rparr>]"
    by (simp add: toUserContent_def demo_vis_def demo_component_def)
  with miss show ?thesis by simp
qed

section \<open>Properties of the plugin registration\<close>

lemma plugin_setup_result:
  "\<exists>h'. plugin_setup h = Inr h' \<and> logged h' = logged h
        \<and> (dashboard h' = None \<longleftrightarrow> dashboard h = None)
        \<and> registrations h' = registrations h + (if dashboard h = None then 0 else 1)"
  by (cases "dashboard h") (simp_all add: plugin_setup_def registrations_def)

lemma lifecycle_step_result:
  "\<exists>h'. lifecycle_step ev h = Inr h' \<and> logged h' = logged h
        \<and> (dashboard h' = None \<longleftrightarrow> dashboard h = None)
        \<and> registrations h' = registrations h
             + (if dashboard h = None then 0 else count_list [ev] Setup)"
proof (cases ev)
  case Setup
  with plugin_setup_result [of h] show ?thesis by auto
next
  case Start
  then show ?thesis by (simp add: plugin_start_def)
qed

lemma run_result:
  "\<exists>h'. run evs h = Inr h' \<and> logged h' = logged h
        \<and> (dashboard h' = None \<longleftrightarrow> dashboard h = None)
        \<and> registrations h' = registrations h
             + (if dashboard h = None then 0 else count_list evs Setup)"
proof (induction evs arbitrary: h)
  case Nil
  show ?case by simp
next
  case (Cons ev evs)
  from lifecycle_step_result [of ev h] obtain h1 where
    s: "lifecycle_step ev h = Inr h1 \<and> logged h1 = logged h
        \<and> (dashboard h1 = None \<longleftrightarrow> dashboard h = None)
        \<and> registrations h1 = registrations h
             + (if dashboard h = None then 0 else count_list [ev] Setup)"
    ..
  from Cons.IH [of h1] obtain h2 where
    r: "run evs h1 = Inr h2 \<and> logged h2 = logged h1
        \<and> (dashboard h2 = None \<longleftrightarrow> dashboard h1 = None)
        \<and> registrations h2 = registrations h1
             + (if dashboard h1 = None then 0 else count_list evs Setup)"
    ..
  from s r show ?case by (cases ev) auto
qed

text \<open>
  C9: the plugin's \<open>setup\<close> adds the visualizations tab descriptor to the listing
  view registry exactly once when the dashboard dependency is present, and changes
  nothing when it is absent; it never fails and logs nothing. Along any sequence of
  lifecycle calls nothing is logged, nothing fails, the number of registrations never
  decreases, and it grows by the number of \<open>setup\<close> calls when the dependency is
  present: by exactly one in a lifecycle that calls \<open>setup\<close> once.
\<close>

theorem plugin_setup_registers_once:
  "(\<forall>reg. dashboard h = Some reg \<longrightarrow>
       plugin_setup h = Inr (h\<lparr>dashboard := Some (reg @ [visualizationsTabConfig])\<rparr>))
   \<and> (dashboard h = None \<longrightarrow> plugin_setup h = Inr h)
   \<and> (\<exists>h'. plugin_setup h = Inr h' \<and> logged h' = logged h
         \<and> registrations h' = registrations h + (if dashboard h = None then 0 else 1))
   \<and> (\<exists>h'. run evs h = Inr h' \<and> logged h' = logged h
         \<and> (dashboard h' = None \<longleftrightarrow> dashboard h = None)
         \<and> registrations h' = registrations h
              + (if dashboard h = None then 0 else count_list evs Setup)
         \<and> registrations h \<le> registrations h')"
proof (intro conjI)
  show "\<forall>reg. dashboard h = Some reg \<longrightarrow>
       plugin_setup h = Inr (h\<lparr>dashboard := Some (reg @ [visualizationsTabConfig])\<rparr>)"
    by (simp add: plugin_setup_def)
  show "dashboard h = None \<longrightarrow> plugin_setup h = Inr h"
    by (simp add: plugin_setup_def)
  show "\<exists>h'. plugin_setup h = Inr h' \<and> logged h' = logged h
         \<and> registrations h' = registrations h + (if dashboard h = None then 0 else 1)"
    using plugin_setup_result [of h] by auto
  from run_result [of evs h] obtain h' where
    "run evs h = Inr h' \<and> logged h' = logged h
     \<and> (dashboard h' = None \<longleftrightarrow> dashboard h = None)
     \<and> registrations h' = registrations h
             + (if dashboard h = None then 0 else count_list evs Setup)"
    ..
  then show "\<exists>h'. run evs h = Inr h' \<and> logged h' = logged h
         \<and> (dashboard h' = None \<longleftrightarrow> dashboard h = None)
         \<and> registrations h' = registrations h
              + (if dashboard h = None then 0 else count_list evs Setup)
         \<and> registrations h \<le> registrations h'"
    by auto
qed

theorem plugin_setup_registers_once_witness:
  "plugin_setup \<lparr>dashboard = Some [], logged = []\<rparr>
     = Inr \<lparr>dashboard = Some [visualizationsTabConfig], logged = []\<rparr>
   \<and> plugin_setup \<lparr>dashboard = None, logged = []\<rparr> = Inr \<lparr>dashboard = None, logged = []\<rparr>
   \<and> run [Setup, Start] \<lparr>dashboard = Some [], logged = []\<rparr>
     = Inr \<lparr>dashboard = Some [visualizationsTabConfig], logged = []\<rparr>"
proof -
  have p: "dashboard \<lparr>dashboard = Some [], logged = []\<rparr> = Some []"
    and a: "dashboard \<lparr>dashboard = None, logged = []\<rparr> = None"
    by simp_all
  from plugin_setup_registers_once [of "\<lparr>dashboard = Some [], logged = []\<rparr>" "[]"] p
  have 1: "plugin_setup \<lparr>dashboard = Some [], logged = []\<rparr>
     = Inr \<lparr>dashboard = Some [visualizationsTabConfig], logged = []\<rparr>"
    by simp
  from plugin_setup_registers_once [of "\<lparr>dashboard = None, logged = []\<rparr>" "[]"] a
  have 2: "plugin_setup \<lparr>dashboard = None, logged = []\<rparr> = Inr \<lparr>dashboard = None, logged = []\<rparr>"
    by simp
  from 1 have 3: "run [Setup, Start] \<lparr>dashboard = Some [], logged = []\<rparr>
     = Inr \<lparr>dashboard = Some [visualizationsTabConfig], logged = []\<rparr>"
    by (simp add: plugin_start_def)
  from 1 2 3 show ?thesis by simp
qed

end
